theory Spec2Isabelle
  imports Complex_Main
begin

section \<open>Numbers\<close>

text \<open>
  The engine computes with Python floats. The fusion arithmetic is modelled over the exact
  reals: a finite float is the real it denotes, and the rounding error of a single
  floating-point operation is not modelled. Python's \<^verbatim>\<open>round(x, n)\<close> rounds to
  \<open>n\<close> decimals, a tie going to the even neighbour.
\<close>

definition round_half_even :: "real \<Rightarrow> int" where
  "round_half_even x =
     (let f = \<lfloor>x\<rfloor>; d = x - of_int f
      in if d < 1 / 2 then f
         else if 1 / 2 < d then f + 1
         else if even f then f else f + 1)"

definition py_round :: "real \<Rightarrow> nat \<Rightarrow> real" where
  "py_round x n = of_int (round_half_even (x * 10 ^ n)) / 10 ^ n"

datatype py_error = ZeroDivisionError | IndexError | KeyError | OverflowError

section \<open>Signals and configuration\<close>

text \<open>
  The three signal strings \<^verbatim>\<open>'BUY'\<close>, \<^verbatim>\<open>'SELL'\<close> and \<^verbatim>\<open>'NEUTRAL'\<close>. Every
  producer in the engine emits one of them; other strings are not modelled.
\<close>

datatype signal = BUY | SELL | NEUTRAL

text \<open>The fields of \<^verbatim>\<open>config.Settings\<close> that the fusion path reads, with their defaults.\<close>

record Settings =
  STRATEGY_WEIGHT :: real
  ML_WEIGHT :: real
  NEWS_WEIGHT :: real
  MIN_CONFIDENCE_THRESHOLD :: int
  RSI_PERIOD :: nat
  RSI_OVERBOUGHT :: real
  RSI_OVERSOLD :: real

definition settings :: Settings where
  "settings =
     \<lparr> STRATEGY_WEIGHT = 40 / 100, ML_WEIGHT = 35 / 100, NEWS_WEIGHT = 25 / 100,
       MIN_CONFIDENCE_THRESHOLD = 60,
       RSI_PERIOD = 14, RSI_OVERBOUGHT = 70, RSI_OVERSOLD = 30 \<rparr>"

section \<open>Cross-source probability combiner\<close>

text \<open>
  \<^verbatim>\<open>x or d\<close> on an optional number: \<^verbatim>\<open>None\<close> and \<open>0\<close> are falsy, every other
  number is kept.
\<close>

definition py_or :: "'a::zero option \<Rightarrow> 'a \<Rightarrow> 'a" where
  "py_or x d = (case x of None \<Rightarrow> d | Some v \<Rightarrow> if v = 0 then d else v)"

record ProbabilityCombiner =
  strategy_weight :: real
  ml_weight :: real
  news_weight :: real


text \<open>
  A layer result as the combiner reads it: the signal and the confidence (the key
  \<^verbatim>\<open>avg_confidence\<close> of the strategy and ML layers, \<^verbatim>\<open>confidence\<close> of the news
  layer). The three aggregators always supply both keys, so the defaults of
  \<^verbatim>\<open>dict.get\<close> are never taken.
\<close>

record layer_result =
  lr_signal :: signal
  lr_confidence :: real

record combined =
  final_signal :: signal
  final_confidence :: real
  final_score :: real

definition signal_map :: "signal \<Rightarrow> real" where
  "signal_map s = (case s of BUY \<Rightarrow> 1 | SELL \<Rightarrow> - 1 | NEUTRAL \<Rightarrow> 0)"

text \<open>
  \<^verbatim>\<open>ProbabilityCombiner.combine\<close>, statement by statement. The \<^verbatim>\<open>breakdown\<close> entry
  of the result repeats the inputs and the weights and is left out.
\<close>

definition combine ::
  "ProbabilityCombiner \<Rightarrow> layer_result \<Rightarrow> layer_result \<Rightarrow> layer_result \<Rightarrow> combined" where
  "combine self strategy_result ml_result news_result =
     (let strategy_signal = lr_signal strategy_result;
          strategy_confidence = lr_confidence strategy_result;
          ml_signal = lr_signal ml_result;
          ml_confidence = lr_confidence ml_result;
          news_signal = lr_signal news_result;
          news_confidence = lr_confidence news_result;
          strategy_score = signal_map strategy_signal;
          ml_score = signal_map ml_signal;
          news_score = signal_map news_signal;
          strategy_weighted = strategy_score * (strategy_confidence / 100);
          ml_weighted = ml_score * (ml_confidence / 100);
          news_weighted = news_score * (news_confidence / 100);
          score = strategy_weighted * strategy_weight self
                + ml_weighted * ml_weight self
                + news_weighted * news_weight self;
          confidence0 = strategy_confidence * strategy_weight self
                      + ml_confidence * ml_weight self
                      + news_confidence * news_weight self;
          sig = (if score > 15 / 100 then BUY
                 else if score < - (15 / 100) then SELL
                 else NEUTRAL);
          all_buy = (strategy_signal = BUY \<and> ml_signal = BUY \<and> news_signal = BUY);
          all_sell = (strategy_signal = SELL \<and> ml_signal = SELL \<and> news_signal = SELL);
          confidence1 = (if all_buy \<or> all_sell then min 100 (confidence0 + 15)
                         else confidence0);
          confidence2 = (if (strategy_signal = BUY \<and> ml_signal = SELL)
                            \<or> (strategy_signal = SELL \<and> ml_signal = BUY)
                         then max 0 (confidence1 - 20)
                         else confidence1)
      in \<lparr> final_signal = sig,
           final_confidence = py_round confidence2 2,
           final_score = py_round score 3 \<rparr>)"

section \<open>Technical signal layer: the aggregator\<close>

text \<open>
  One strategy's result as the aggregator reads it: the keys \<^verbatim>\<open>signal\<close> and
  \<^verbatim>\<open>confidence\<close>. The other keys of a strategy's dictionary are details that the
  aggregator passes through unread.
\<close>

record strategy_result =
  sr_signal :: signal
  sr_confidence :: real

record strategies_combined =
  sc_signal :: signal
  sc_avg_confidence :: real
  sc_strategies :: "strategy_result list"
  sc_buy_count :: nat
  sc_sell_count :: nat
  sc_neutral_count :: nat
  sc_total_strategies :: "nat option"

text \<open>
  \<^verbatim>\<open>StrategyManager._combine_strategies\<close>. The early return for an empty list has no
  \<^verbatim>\<open>total_strategies\<close> key.
\<close>

definition combine_strategies :: "strategy_result list \<Rightarrow> strategies_combined" where
  "combine_strategies results =
     (if results = [] then
        \<lparr> sc_signal = NEUTRAL, sc_avg_confidence = 0, sc_strategies = [],
          sc_buy_count = 0, sc_sell_count = 0, sc_neutral_count = 0,
          sc_total_strategies = None \<rparr>
      else
        let buy_count = length (filter (\<lambda>r. sr_signal r = BUY) results);
            sell_count = length (filter (\<lambda>r. sr_signal r = SELL) results);
            neutral_count = length (filter (\<lambda>r. sr_signal r = NEUTRAL) results);
            total_confidence = sum_list (map sr_confidence results);
            avg_confidence = total_confidence / real (length results);
            (sig, avg_confidence') =
              (if buy_count > sell_count \<and> buy_count > neutral_count then
                 (BUY, min 100 (avg_confidence
                                + (real buy_count / real (length results)) * 20))
               else if sell_count > buy_count \<and> sell_count > neutral_count then
                 (SELL, min 100 (avg_confidence
                                 + (real sell_count / real (length results)) * 20))
               else
                 let max_count = max (max buy_count sell_count) neutral_count;
                     disagreement_penalty =
                       (1 - real max_count / real (length results)) * 30
                 in (NEUTRAL, max 0 (avg_confidence - disagreement_penalty)))
        in \<lparr> sc_signal = sig, sc_avg_confidence = py_round avg_confidence' 2,
             sc_strategies = results,
             sc_buy_count = buy_count, sc_sell_count = sell_count,
             sc_neutral_count = neutral_count,
             sc_total_strategies = Some (length results) \<rparr>)"

section \<open>Classifier ensemble aggregator\<close>

text \<open>One model's vote: the keys \<^verbatim>\<open>signal\<close> and \<^verbatim>\<open>confidence\<close> of its dictionary.\<close>

record model_prediction =
  mp_signal :: signal
  mp_confidence :: real

record predictions_combined =
  pc_signal :: signal
  pc_avg_confidence :: real
  pc_models :: "model_prediction list"
  pc_buy_count :: nat
  pc_sell_count :: nat
  pc_total_models :: "nat option"

text \<open>\<^verbatim>\<open>MLModelPredictor._combine_predictions\<close>.\<close>

definition combine_predictions :: "model_prediction list \<Rightarrow> predictions_combined" where
  "combine_predictions predictions =
     (if predictions = [] then
        \<lparr> pc_signal = NEUTRAL, pc_avg_confidence = 0, pc_models = [],
          pc_buy_count = 0, pc_sell_count = 0, pc_total_models = None \<rparr>
      else
        let buy_count = length (filter (\<lambda>p. mp_signal p = BUY) predictions);
            sell_count = length (filter (\<lambda>p. mp_signal p = SELL) predictions);
            total_confidence = sum_list (map mp_confidence predictions);
            avg_confidence = total_confidence / real (length predictions);
            (sig, avg_confidence') =
              (if buy_count > sell_count then
                 (BUY, min 100 (avg_confidence
                                + (real buy_count / real (length predictions)) * 15))
               else if sell_count > buy_count then
                 (SELL, min 100 (avg_confidence
                                 + (real sell_count / real (length predictions)) * 15))
               else
                 (NEUTRAL, max 20 (avg_confidence - 20)))
        in \<lparr> pc_signal = sig, pc_avg_confidence = py_round avg_confidence' 2,
             pc_models = predictions,
             pc_buy_count = buy_count, pc_sell_count = sell_count,
             pc_total_models = Some (length predictions) \<rparr>)"

section \<open>Floats with the special values\<close>

text \<open>
  Where a claim is about the special values of a float (an unavailable indicator value, a
  non-finite number at the serialization boundary), a float is a finite real or one of
  the three special values. Comparisons with NaN are false; the arithmetic follows
  IEEE 754 on the special values and is exact on finite values.
\<close>

datatype pyfloat = Fin real | PosInf | NegInf | NaN

fun pf_lt :: "pyfloat \<Rightarrow> pyfloat \<Rightarrow> bool" where
  "pf_lt NaN _ = False"
| "pf_lt _ NaN = False"
| "pf_lt (Fin x) (Fin y) = (x < y)"
| "pf_lt NegInf NegInf = False"
| "pf_lt NegInf _ = True"
| "pf_lt _ NegInf = False"
| "pf_lt PosInf _ = False"
| "pf_lt (Fin x) PosInf = True"

fun pf_le :: "pyfloat \<Rightarrow> pyfloat \<Rightarrow> bool" where
  "pf_le NaN _ = False"
| "pf_le _ NaN = False"
| "pf_le (Fin x) (Fin y) = (x \<le> y)"
| "pf_le NegInf _ = True"
| "pf_le _ PosInf = True"
| "pf_le PosInf _ = False"
| "pf_le (Fin x) NegInf = False"

fun pf_neg :: "pyfloat \<Rightarrow> pyfloat" where
  "pf_neg (Fin x) = Fin (- x)"
| "pf_neg PosInf = NegInf"
| "pf_neg NegInf = PosInf"
| "pf_neg NaN = NaN"

fun pf_add :: "pyfloat \<Rightarrow> pyfloat \<Rightarrow> pyfloat" where
  "pf_add NaN _ = NaN"
| "pf_add _ NaN = NaN"
| "pf_add (Fin x) (Fin y) = Fin (x + y)"
| "pf_add PosInf NegInf = NaN"
| "pf_add NegInf PosInf = NaN"
| "pf_add PosInf _ = PosInf"
| "pf_add NegInf _ = NegInf"
| "pf_add (Fin x) PosInf = PosInf"
| "pf_add (Fin x) NegInf = NegInf"

definition pf_sub :: "pyfloat \<Rightarrow> pyfloat \<Rightarrow> pyfloat" where
  "pf_sub a b = pf_add a (pf_neg b)"

text \<open>Multiplication by a finite constant, as the strategies use it.\<close>

fun pf_scale :: "pyfloat \<Rightarrow> real \<Rightarrow> pyfloat" where
  "pf_scale (Fin x) k = Fin (x * k)"
| "pf_scale NaN k = NaN"
| "pf_scale PosInf k = (if k = 0 then NaN else if 0 < k then PosInf else NegInf)"
| "pf_scale NegInf k = (if k = 0 then NaN else if 0 < k then NegInf else PosInf)"

fun pf_abs :: "pyfloat \<Rightarrow> pyfloat" where
  "pf_abs (Fin x) = Fin \<bar>x\<bar>"
| "pf_abs PosInf = PosInf"
| "pf_abs NegInf = PosInf"
| "pf_abs NaN = NaN"

text \<open>
  The builtins \<^verbatim>\<open>min(a, b)\<close> and \<^verbatim>\<open>max(a, b)\<close> keep the first argument unless the
  second compares strictly below (above) it, so a NaN in second place is dropped.
\<close>

definition py_min :: "pyfloat \<Rightarrow> pyfloat \<Rightarrow> pyfloat" where
  "py_min a b = (if pf_lt b a then b else a)"

definition py_max :: "pyfloat \<Rightarrow> pyfloat \<Rightarrow> pyfloat" where
  "py_max a b = (if pf_lt a b then b else a)"

text \<open>\<^verbatim>\<open>round(x, n)\<close> returns a special value unchanged.\<close>

fun pf_round :: "pyfloat \<Rightarrow> nat \<Rightarrow> pyfloat" where
  "pf_round (Fin x) n = Fin (py_round x n)"
| "pf_round v n = v"

section \<open>Target price calculator\<close>

datatype target_kind = HIGH | LOW

datatype target_reason = Confidence_below_threshold real | Signal_is_NEUTRAL

text \<open>
  The dictionary \<^verbatim>\<open>calculate_target\<close> returns. The two gate branches fill the first
  four keys only; the computing branch fills all but \<^verbatim>\<open>reason\<close>.
\<close>

record target_result =
  target_price :: "real option"
  target_type :: "target_kind option"
  current_price :: real
  reason :: "target_reason option"
  atr :: "real option"
  confidence_factor :: "real option"
  price_movement :: "real option"
  pct_move :: "pyfloat option"

text \<open>
  \<^verbatim>\<open>TargetPriceCalculator.calculate_target\<close>. The arguments \<open>close\<close> and
  \<open>current_atr\<close> stand for the data frame: \<open>close\<close> is the column \<^verbatim>\<open>df['close']\<close>,
  oldest first, and \<open>current_atr\<close> is the outcome of
  \<^verbatim>\<open>ta.atr(df['high'], df['low'], df['close'], length=self.atr_period).iloc[-1]\<close>, a
  call into the external indicator library, which either raises or yields the latest
  average true range. Every exception is caught by the enclosing \<^verbatim>\<open>try\<close> and turns
  the result into \<^verbatim>\<open>None\<close>; \<^verbatim>\<open>df['close'].iloc[-1]\<close> raises on an empty column.
  The percentage move divides numpy floats, where a zero divisor gives a special value
  and no exception.
\<close>

definition calculate_target ::
  "real list \<Rightarrow> py_error + real \<Rightarrow> signal \<Rightarrow> real \<Rightarrow> real \<Rightarrow> target_result option" where
  "calculate_target close current_atr sig confidence min_confidence =
     (if close = [] then None
      else if confidence < min_confidence then
        Some \<lparr> target_price = None, target_type = None, current_price = last close,
               reason = Some (Confidence_below_threshold min_confidence),
               atr = None, confidence_factor = None, price_movement = None,
               pct_move = None \<rparr>
      else if sig = NEUTRAL then
        Some \<lparr> target_price = None, target_type = None, current_price = last close,
               reason = Some Signal_is_NEUTRAL,
               atr = None, confidence_factor = None, price_movement = None,
               pct_move = None \<rparr>
      else
        (case current_atr of
           Inl e \<Rightarrow> None
         | Inr current_atr_value \<Rightarrow>
             let cur = last close;
                 factor = 5 / 10 + (confidence / 100) * (15 / 10);
                 movement = current_atr_value * factor;
                 (target, kind) =
                   (if sig = BUY then (cur + movement, HIGH)
                    else (cur - movement, LOW));
                 pct =
                   (if cur = 0 then
                      (if 0 < target - cur then PosInf
                       else if target - cur < 0 then NegInf
                       else NaN)
                    else Fin (((target - cur) / cur) * 100))
             in Some \<lparr> target_price = Some (py_round target 2),
                       target_type = Some kind,
                       current_price = py_round cur 2,
                       reason = None,
                       atr = Some (py_round current_atr_value 2),
                       confidence_factor = Some (py_round factor 2),
                       price_movement = Some (py_round movement 2),
                       pct_move = Some (pf_round pct 2) \<rparr>))"

section \<open>Sentiment aggregator\<close>








section \<open>Technical signal layer: the momentum strategy and the manager's loop\<close>

record RSIStrategy =
  rsi_period :: nat
  rsi_overbought :: real
  rsi_oversold :: real

definition RSIStrategy_init :: "nat option \<Rightarrow> real option \<Rightarrow> real option \<Rightarrow> RSIStrategy" where
  "RSIStrategy_init period overbought oversold =
     \<lparr> rsi_period = py_or period (RSI_PERIOD settings),
       rsi_overbought = py_or overbought (RSI_OVERBOUGHT settings),
       rsi_oversold = py_or oversold (RSI_OVERSOLD settings) \<rparr>"

text \<open>
  The dictionary \<^verbatim>\<open>RSIStrategy.calculate\<close> returns: signal, confidence and oscillator
  value, and the \<^verbatim>\<open>error\<close> key of the handler's dictionary. The strategy name and the
  two thresholds repeated in the result are left out.
\<close>

record rsi_result =
  rsi_signal :: signal
  rsi_confidence :: pyfloat
  rsi_value :: pyfloat
  rsi_error :: "py_error option"

text \<open>
  \<^verbatim>\<open>RSIStrategy.calculate\<close>. The argument \<open>rsi\<close> is the outcome of
  \<^verbatim>\<open>ta.rsi(df['close'], length=self.period)\<close>, a call into the external indicator
  library: it raises, or yields a series with one value per candle, oldest first.
  \<^verbatim>\<open>rsi.iloc[-1]\<close> raises on an empty series. The handler catches every exception.
\<close>

definition RSIStrategy_calculate :: "RSIStrategy \<Rightarrow> py_error + pyfloat list \<Rightarrow> rsi_result" where
  "RSIStrategy_calculate self rsi =
     (case (case rsi of
              Inl e \<Rightarrow> Inl e
            | Inr series \<Rightarrow> if series = [] then Inl IndexError else Inr (last series)) of
        Inl e \<Rightarrow>
          \<lparr> rsi_signal = NEUTRAL, rsi_confidence = Fin 0, rsi_value = Fin 0,
            rsi_error = Some e \<rparr>
      | Inr current_rsi \<Rightarrow>
          let (sig, confidence) =
                (if pf_le current_rsi (Fin (rsi_oversold self)) then
                   (BUY,
                    py_min (Fin 100)
                      (pf_add (Fin 50)
                         (pf_scale (pf_sub (Fin (rsi_oversold self)) current_rsi) 2)))
                 else if pf_le (Fin (rsi_overbought self)) current_rsi then
                   (SELL,
                    py_min (Fin 100)
                      (pf_add (Fin 50)
                         (pf_scale (pf_sub current_rsi (Fin (rsi_overbought self))) 2)))
                 else
                   let distance_from_neutral = pf_abs (pf_sub current_rsi (Fin 50))
                   in (NEUTRAL, py_max (Fin 20) distance_from_neutral))
          in \<lparr> rsi_signal = sig, rsi_confidence = pf_round confidence 2,
               rsi_value = pf_round current_rsi 2, rsi_error = None \<rparr>)"

text \<open>
  Modelled from the spec: the series of the external oscillator on a candle window
  shorter than its required length. Section 3 has the indicator values unavailable (not
  zero) on such a window, carried by an explicit no-value marker; in the library's series
  the marker is NaN, one per candle.
\<close>

definition unavailable_series :: "real list \<Rightarrow> pyfloat list" where
  "unavailable_series close = map (\<lambda>c. NaN) close"

text \<open>
  The loop of \<^verbatim>\<open>StrategyManager.calculate_all\<close> over the strategies, in their order:
  a disabled strategy is skipped (a name missing from \<^verbatim>\<open>enabled_strategies\<close> counts as
  enabled), and a strategy whose \<^verbatim>\<open>calculate\<close> raises is logged and contributes
  nothing.
\<close>

fun run_strategies ::
  "(string \<rightharpoonup> bool) \<Rightarrow> (string \<times> ('df \<Rightarrow> py_error + 'r)) list \<Rightarrow> 'df \<Rightarrow> 'r list" where
  "run_strategies enabled [] df = []"
| "run_strategies enabled ((name, strategy) # rest) df =
     (if (case enabled name of None \<Rightarrow> True | Some b \<Rightarrow> b) then
        (case strategy df of
           Inl e \<Rightarrow> run_strategies enabled rest df
         | Inr result \<Rightarrow> result # run_strategies enabled rest df)
      else run_strategies enabled rest df)"

definition calculate_all ::
  "(string \<rightharpoonup> bool) \<Rightarrow> (string \<times> ('df \<Rightarrow> py_error + strategy_result)) list \<Rightarrow> 'df
     \<Rightarrow> strategies_combined" where
  "calculate_all enabled strategies df = combine_strategies (run_strategies enabled strategies df)"

section \<open>Serialization of a prediction\<close>

text \<open>
  The Python values a prediction structure is built from. Dictionary keys are strings
  throughout the engine, so \<^verbatim>\<open>str(k)\<close> is the key itself. A datetime carries the text
  its \<^verbatim>\<open>isoformat()\<close> returns. The numpy scalars are what pandas and the indicator
  library hand out: \<^verbatim>\<open>df['close'].iloc[-1]\<close> is a \<^verbatim>\<open>numpy.float64\<close>, and so is
  its \<^verbatim>\<open>round(x, 2)\<close>. A prediction holds no pandas series or frame; those two
  branches of the function are not modelled.
\<close>

datatype pyval =
    PyNone
  | PyBool bool
  | PyInt int
  | PyFloat pyfloat
  | PyStr string
  | PyList "pyval list"
  | PyTuple "pyval list"
  | PyDict "(string \<times> pyval) list"
  | PyDatetime string
  | NpFloat64 pyfloat
  | NpInt64 int
  | NpBool bool
  | NpArray "pyval list"

text \<open>
  A comprehension over results that may raise: the first exception ends it.
\<close>

fun all_ok :: "('e + 'a) list \<Rightarrow> 'e + 'a list" where
  "all_ok [] = Inr []"
| "all_ok (Inl e # rest) = Inl e"
| "all_ok (Inr x # rest) = (case all_ok rest of Inl e \<Rightarrow> Inl e | Inr xs \<Rightarrow> Inr (x # xs))"

text \<open>
  \<^verbatim>\<open>PredictionEngine._clean_for_serialization\<close>, branch by branch in the order of the
  source. A numpy scalar has an \<^verbatim>\<open>item\<close> method, so it leaves through the fifth
  branch with \<^verbatim>\<open>obj.item()\<close>, the Python scalar of the same value; the two later
  \<^verbatim>\<open>numpy\<close> branches are never reached. \<^verbatim>\<open>math.isnan\<close> on an integer converts it to
  a float first and raises \<^verbatim>\<open>OverflowError\<close> beyond the float range.
\<close>

fun clean_for_serialization :: "pyval \<Rightarrow> py_error + pyval" where
  "clean_for_serialization (PyDict kvs) =
     (case all_ok (map (\<lambda>(k, v). case clean_for_serialization v of
                                     Inl e \<Rightarrow> Inl e | Inr v' \<Rightarrow> Inr (k, v')) kvs) of
        Inl e \<Rightarrow> Inl e | Inr kvs' \<Rightarrow> Inr (PyDict kvs'))"
| "clean_for_serialization (PyList xs) =
     (case all_ok (map clean_for_serialization xs) of
        Inl e \<Rightarrow> Inl e | Inr xs' \<Rightarrow> Inr (PyList xs'))"
| "clean_for_serialization (PyTuple xs) =
     (case all_ok (map clean_for_serialization xs) of
        Inl e \<Rightarrow> Inl e | Inr xs' \<Rightarrow> Inr (PyList xs'))"
| "clean_for_serialization (NpArray xs) =
     (case all_ok (map clean_for_serialization xs) of
        Inl e \<Rightarrow> Inl e | Inr xs' \<Rightarrow> Inr (PyList xs'))"
| "clean_for_serialization (NpFloat64 x) = Inr (PyFloat x)"
| "clean_for_serialization (NpInt64 n) = Inr (PyInt n)"
| "clean_for_serialization (NpBool b) = Inr (PyBool b)"
| "clean_for_serialization (PyDatetime stamp) = Inr (PyStr stamp)"
| "clean_for_serialization (PyFloat x) =
     (case x of Fin r \<Rightarrow> Inr (PyFloat x) | _ \<Rightarrow> Inr PyNone)"
| "clean_for_serialization (PyInt n) =
     (if 2 ^ 1024 - 2 ^ 970 \<le> \<bar>n\<bar> then Inl OverflowError else Inr (PyInt n))"
| "clean_for_serialization (PyBool b) = Inr (PyBool b)"
| "clean_for_serialization PyNone = Inr PyNone"
| "clean_for_serialization (PyStr s) = Inr (PyStr s)"

section \<open>Properties of the combiner\<close>




lemma combine_final_confidence:
  "final_confidence (combine self s m n) =
     (let fc = lr_confidence s * strategy_weight self
               + lr_confidence m * ml_weight self
               + lr_confidence n * news_weight self
      in py_round
           (if lr_signal s = lr_signal m \<and> lr_signal m = lr_signal n \<and> lr_signal s \<noteq> NEUTRAL
            then min 100 (fc + 15)
            else if (lr_signal s = BUY \<and> lr_signal m = SELL)
                    \<or> (lr_signal s = SELL \<and> lr_signal m = BUY)
            then max 0 (fc - 20)
            else fc) 2)"
  by (cases "lr_signal s"; cases "lr_signal m"; cases "lr_signal n")
     (simp_all add: combine_def Let_def)




text \<open>
  Claim C2. When the strategy, ML and news signals are all identical and not NEUTRAL, the
  final confidence is the weighted average plus 15, capped at 100. When the strategy and
  ML signals are directly opposite (one BUY, the other SELL), whatever the news signal,
  it is the weighted average minus 20, floored at 0. Otherwise it is the weighted average
  itself. The two conditions never hold together. (The reported value is rounded to two
  decimals.)
\<close>

theorem combine_adjustments:
  "(let fc = lr_confidence s * strategy_weight self
             + lr_confidence m * ml_weight self
             + lr_confidence n * news_weight self;
        all_agree = (lr_signal s = lr_signal m \<and> lr_signal m = lr_signal n
                     \<and> lr_signal s \<noteq> NEUTRAL);
        opposite = ((lr_signal s = BUY \<and> lr_signal m = SELL)
                    \<or> (lr_signal s = SELL \<and> lr_signal m = BUY))
    in (all_agree \<longrightarrow>
          final_confidence (combine self s m n) = py_round (min 100 (fc + 15)) 2)
       \<and> (opposite \<longrightarrow>
          final_confidence (combine self s m n) = py_round (max 0 (fc - 20)) 2)
       \<and> (\<not> all_agree \<and> \<not> opposite \<longrightarrow>
          final_confidence (combine self s m n) = py_round fc 2)
       \<and> \<not> (all_agree \<and> opposite))"
  unfolding Let_def
  using combine_final_confidence [of self s m n]
  unfolding Let_def
  by (cases "lr_signal s"; cases "lr_signal m"; cases "lr_signal n") simp_all

theorem combine_adjustments_witness:
  "final_confidence
     (combine \<lparr>strategy_weight = 2 / 5, ml_weight = 7 / 20, news_weight = 1 / 4\<rparr>
              \<lparr>lr_signal = BUY, lr_confidence = 90\<rparr>
              \<lparr>lr_signal = BUY, lr_confidence = 90\<rparr>
              \<lparr>lr_signal = BUY, lr_confidence = 90\<rparr>) = 100
   \<and> final_confidence
     (combine \<lparr>strategy_weight = 2 / 5, ml_weight = 7 / 20, news_weight = 1 / 4\<rparr>
              \<lparr>lr_signal = BUY, lr_confidence = 10\<rparr>
              \<lparr>lr_signal = SELL, lr_confidence = 20\<rparr>
              \<lparr>lr_signal = BUY, lr_confidence = 20\<rparr>) = 0
   \<and> final_confidence
     (combine \<lparr>strategy_weight = 2 / 5, ml_weight = 7 / 20, news_weight = 1 / 4\<rparr>
              \<lparr>lr_signal = SELL, lr_confidence = 60\<rparr>
              \<lparr>lr_signal = NEUTRAL, lr_confidence = 60\<rparr>
              \<lparr>lr_signal = SELL, lr_confidence = 60\<rparr>) = 60"
  using combine_adjustments
    [of "\<lparr>lr_signal = BUY, lr_confidence = 90\<rparr>"
        "\<lparr>strategy_weight = 2 / 5, ml_weight = 7 / 20, news_weight = 1 / 4\<rparr>"
        "\<lparr>lr_signal = BUY, lr_confidence = 90\<rparr>"
        "\<lparr>lr_signal = BUY, lr_confidence = 90\<rparr>"]
    combine_adjustments
    [of "\<lparr>lr_signal = BUY, lr_confidence = 10\<rparr>"
        "\<lparr>strategy_weight = 2 / 5, ml_weight = 7 / 20, news_weight = 1 / 4\<rparr>"
        "\<lparr>lr_signal = SELL, lr_confidence = 20\<rparr>"
        "\<lparr>lr_signal = BUY, lr_confidence = 20\<rparr>"]
    combine_adjustments
    [of "\<lparr>lr_signal = SELL, lr_confidence = 60\<rparr>"
        "\<lparr>strategy_weight = 2 / 5, ml_weight = 7 / 20, news_weight = 1 / 4\<rparr>"
        "\<lparr>lr_signal = NEUTRAL, lr_confidence = 60\<rparr>"
        "\<lparr>lr_signal = SELL, lr_confidence = 60\<rparr>"]
  by (simp add: Let_def py_round_def round_half_even_def)








section \<open>Properties of the two aggregators\<close>

lemma combine_strategies_signal:
  "results \<noteq> [] \<Longrightarrow>
   sc_signal (combine_strategies results) =
     (let b = length (filter (\<lambda>r. sr_signal r = BUY) results);
          s = length (filter (\<lambda>r. sr_signal r = SELL) results);
          n = length (filter (\<lambda>r. sr_signal r = NEUTRAL) results)
      in if b > s \<and> b > n then BUY else if s > b \<and> s > n then SELL else NEUTRAL)"
  by (simp add: combine_strategies_def Let_def)

lemma combine_strategies_confidence:
  "results \<noteq> [] \<Longrightarrow>
   sc_avg_confidence (combine_strategies results) =
     (let b = length (filter (\<lambda>r. sr_signal r = BUY) results);
          s = length (filter (\<lambda>r. sr_signal r = SELL) results);
          n = length (filter (\<lambda>r. sr_signal r = NEUTRAL) results);
          avg = sum_list (map sr_confidence results) / real (length results)
      in py_round
           (if b > s \<and> b > n then min 100 (avg + real b / real (length results) * 20)
            else if s > b \<and> s > n then min 100 (avg + real s / real (length results) * 20)
            else max 0 (avg - (1 - real (max (max b s) n) / real (length results)) * 30)) 2)"
  by (simp add: combine_strategies_def Let_def)

lemma signal_count_partition:
  "length (filter (\<lambda>r. sr_signal r = BUY) results)
   + length (filter (\<lambda>r. sr_signal r = SELL) results)
   + length (filter (\<lambda>r. sr_signal r = NEUTRAL) results) = length results"
proof (induction results)
  case Nil
  show ?case by simp
next
  case (Cons r rs)
  then show ?case by (cases "sr_signal r") simp_all
qed

text \<open>
  Claim C4. For six strategy results, the aggregated signal is the category whose count
  is strictly larger than both others, and NEUTRAL when NEUTRAL is that category or when
  no category is strictly largest. The confidence is the plain average of the six
  confidences plus (winning count / 6) * 20, capped at 100, when BUY or SELL wins, and
  the average minus (1 - largest count / 6) * 30, floored at 0, in the NEUTRAL branch.
  (The reported value is rounded to two decimals.)
\<close>

theorem combine_strategies_majority:
  assumes "length results = 6"
  shows
    "(let b = length (filter (\<lambda>r. sr_signal r = BUY) results);
          s = length (filter (\<lambda>r. sr_signal r = SELL) results);
          n = length (filter (\<lambda>r. sr_signal r = NEUTRAL) results);
          avg = sum_list (map sr_confidence results) / 6
      in b + s + n = 6
         \<and> (b > s \<and> b > n \<longrightarrow>
              sc_signal (combine_strategies results) = BUY
              \<and> sc_avg_confidence (combine_strategies results)
                  = py_round (min 100 (avg + (real b / 6) * 20)) 2)
         \<and> (s > b \<and> s > n \<longrightarrow>
              sc_signal (combine_strategies results) = SELL
              \<and> sc_avg_confidence (combine_strategies results)
                  = py_round (min 100 (avg + (real s / 6) * 20)) 2)
         \<and> (\<not> (b > s \<and> b > n) \<and> \<not> (s > b \<and> s > n) \<longrightarrow>
              sc_signal (combine_strategies results) = NEUTRAL
              \<and> sc_avg_confidence (combine_strategies results)
                  = py_round (max 0 (avg - (1 - real (max (max b s) n) / 6) * 30)) 2))"
proof -
  have ne: "results \<noteq> []" using assms by auto
  define b where "b = length (filter (\<lambda>r. sr_signal r = BUY) results)"
  define s where "s = length (filter (\<lambda>r. sr_signal r = SELL) results)"
  define n where "n = length (filter (\<lambda>r. sr_signal r = NEUTRAL) results)"
  define avg where "avg = sum_list (map sr_confidence results) / 6"
  have part: "b + s + n = 6"
    using signal_count_partition [of results] assms by (simp add: b_def s_def n_def)
  have sig: "sc_signal (combine_strategies results)
             = (if b > s \<and> b > n then BUY else if s > b \<and> s > n then SELL else NEUTRAL)"
    using combine_strategies_signal [OF ne] unfolding Let_def b_def s_def n_def .
  have conf: "sc_avg_confidence (combine_strategies results)
             = py_round
                 (if b > s \<and> b > n then min 100 (avg + real b / 6 * 20)
                  else if s > b \<and> s > n then min 100 (avg + real s / 6 * 20)
                  else max 0 (avg - (1 - real (max (max b s) n) / 6) * 30)) 2"
    using combine_strategies_confidence [OF ne]
    unfolding Let_def assms b_def s_def n_def avg_def by (simp only: of_nat_numeral)
  have c1: "sc_signal (combine_strategies results) = BUY
            \<and> sc_avg_confidence (combine_strategies results)
                = py_round (min 100 (avg + (real b / 6) * 20)) 2"
    if "b > s \<and> b > n"
    unfolding sig conf using that by (simp only: if_True simp_thms)
  have c2: "sc_signal (combine_strategies results) = SELL
            \<and> sc_avg_confidence (combine_strategies results)
                = py_round (min 100 (avg + (real s / 6) * 20)) 2"
    if "s > b \<and> s > n"
  proof -
    from that have "\<not> (b > s \<and> b > n)" by linarith
    then show ?thesis
      unfolding sig conf using that by (simp only: if_True if_False simp_thms)
  qed
  have c3: "sc_signal (combine_strategies results) = NEUTRAL
            \<and> sc_avg_confidence (combine_strategies results)
                = py_round (max 0 (avg - (1 - real (max (max b s) n) / 6) * 30)) 2"
    if "\<not> (b > s \<and> b > n) \<and> \<not> (s > b \<and> s > n)"
    unfolding sig conf using that by (simp only: if_False simp_thms)
  have "b + s + n = 6
         \<and> (b > s \<and> b > n \<longrightarrow>
              sc_signal (combine_strategies results) = BUY
              \<and> sc_avg_confidence (combine_strategies results)
                  = py_round (min 100 (avg + (real b / 6) * 20)) 2)
         \<and> (s > b \<and> s > n \<longrightarrow>
              sc_signal (combine_strategies results) = SELL
              \<and> sc_avg_confidence (combine_strategies results)
                  = py_round (min 100 (avg + (real s / 6) * 20)) 2)
         \<and> (\<not> (b > s \<and> b > n) \<and> \<not> (s > b \<and> s > n) \<longrightarrow>
              sc_signal (combine_strategies results) = NEUTRAL
              \<and> sc_avg_confidence (combine_strategies results)
                  = py_round (max 0 (avg - (1 - real (max (max b s) n) / 6) * 30)) 2)"
    using part c1 c2 c3 by blast
  then show ?thesis
    unfolding Let_def b_def s_def n_def avg_def .
qed


theorem combine_strategies_majority_witness:
  "length [\<lparr>sr_signal = BUY, sr_confidence = 60\<rparr>, \<lparr>sr_signal = BUY, sr_confidence = 70\<rparr>,
           \<lparr>sr_signal = BUY, sr_confidence = 55\<rparr>, \<lparr>sr_signal = SELL, sr_confidence = 50\<rparr>,
           \<lparr>sr_signal = NEUTRAL, sr_confidence = 20\<rparr>,
           \<lparr>sr_signal = NEUTRAL, sr_confidence = 30\<rparr>] = 6
   \<and> sc_signal (combine_strategies
        [\<lparr>sr_signal = BUY, sr_confidence = 60\<rparr>, \<lparr>sr_signal = BUY, sr_confidence = 70\<rparr>,
         \<lparr>sr_signal = BUY, sr_confidence = 55\<rparr>, \<lparr>sr_signal = SELL, sr_confidence = 50\<rparr>,
         \<lparr>sr_signal = NEUTRAL, sr_confidence = 20\<rparr>,
         \<lparr>sr_signal = NEUTRAL, sr_confidence = 30\<rparr>]) = BUY
   \<and> sc_avg_confidence (combine_strategies
        [\<lparr>sr_signal = BUY, sr_confidence = 60\<rparr>, \<lparr>sr_signal = BUY, sr_confidence = 70\<rparr>,
         \<lparr>sr_signal = BUY, sr_confidence = 55\<rparr>, \<lparr>sr_signal = SELL, sr_confidence = 50\<rparr>,
         \<lparr>sr_signal = NEUTRAL, sr_confidence = 20\<rparr>,
         \<lparr>sr_signal = NEUTRAL, sr_confidence = 30\<rparr>]) = 115 / 2
   \<and> sc_signal (combine_strategies
        [\<lparr>sr_signal = SELL, sr_confidence = 90\<rparr>, \<lparr>sr_signal = SELL, sr_confidence = 90\<rparr>,
         \<lparr>sr_signal = SELL, sr_confidence = 90\<rparr>, \<lparr>sr_signal = SELL, sr_confidence = 90\<rparr>,
         \<lparr>sr_signal = NEUTRAL, sr_confidence = 90\<rparr>,
         \<lparr>sr_signal = BUY, sr_confidence = 90\<rparr>]) = SELL
   \<and> sc_avg_confidence (combine_strategies
        [\<lparr>sr_signal = SELL, sr_confidence = 90\<rparr>, \<lparr>sr_signal = SELL, sr_confidence = 90\<rparr>,
         \<lparr>sr_signal = SELL, sr_confidence = 90\<rparr>, \<lparr>sr_signal = SELL, sr_confidence = 90\<rparr>,
         \<lparr>sr_signal = NEUTRAL, sr_confidence = 90\<rparr>,
         \<lparr>sr_signal = BUY, sr_confidence = 90\<rparr>]) = 100
   \<and> sc_signal (combine_strategies
        [\<lparr>sr_signal = BUY, sr_confidence = 60\<rparr>, \<lparr>sr_signal = BUY, sr_confidence = 70\<rparr>,
         \<lparr>sr_signal = BUY, sr_confidence = 55\<rparr>, \<lparr>sr_signal = SELL, sr_confidence = 50\<rparr>,
         \<lparr>sr_signal = SELL, sr_confidence = 20\<rparr>,
         \<lparr>sr_signal = SELL, sr_confidence = 30\<rparr>]) = NEUTRAL
   \<and> sc_avg_confidence (combine_strategies
        [\<lparr>sr_signal = BUY, sr_confidence = 60\<rparr>, \<lparr>sr_signal = BUY, sr_confidence = 70\<rparr>,
         \<lparr>sr_signal = BUY, sr_confidence = 55\<rparr>, \<lparr>sr_signal = SELL, sr_confidence = 50\<rparr>,
         \<lparr>sr_signal = SELL, sr_confidence = 20\<rparr>,
         \<lparr>sr_signal = SELL, sr_confidence = 30\<rparr>]) = 65 / 2"
  using
    combine_strategies_majority
      [of "[\<lparr>sr_signal = BUY, sr_confidence = 60\<rparr>, \<lparr>sr_signal = BUY, sr_confidence = 70\<rparr>,
            \<lparr>sr_signal = BUY, sr_confidence = 55\<rparr>, \<lparr>sr_signal = SELL, sr_confidence = 50\<rparr>,
            \<lparr>sr_signal = NEUTRAL, sr_confidence = 20\<rparr>,
            \<lparr>sr_signal = NEUTRAL, sr_confidence = 30\<rparr>]"]
    combine_strategies_majority
      [of "[\<lparr>sr_signal = SELL, sr_confidence = 90\<rparr>, \<lparr>sr_signal = SELL, sr_confidence = 90\<rparr>,
            \<lparr>sr_signal = SELL, sr_confidence = 90\<rparr>, \<lparr>sr_signal = SELL, sr_confidence = 90\<rparr>,
            \<lparr>sr_signal = NEUTRAL, sr_confidence = 90\<rparr>,
            \<lparr>sr_signal = BUY, sr_confidence = 90\<rparr>]"]
    combine_strategies_majority
      [of "[\<lparr>sr_signal = BUY, sr_confidence = 60\<rparr>, \<lparr>sr_signal = BUY, sr_confidence = 70\<rparr>,
            \<lparr>sr_signal = BUY, sr_confidence = 55\<rparr>, \<lparr>sr_signal = SELL, sr_confidence = 50\<rparr>,
            \<lparr>sr_signal = SELL, sr_confidence = 20\<rparr>,
            \<lparr>sr_signal = SELL, sr_confidence = 30\<rparr>]"]
  by (simp add: Let_def py_round_def round_half_even_def)

lemma combine_predictions_empty:
  "combine_predictions []
     = \<lparr> pc_signal = NEUTRAL, pc_avg_confidence = 0, pc_models = [],
         pc_buy_count = 0, pc_sell_count = 0, pc_total_models = None \<rparr>"
  by (simp add: combine_predictions_def)

lemma combine_predictions_signal:
  "predictions \<noteq> [] \<Longrightarrow>
   pc_signal (combine_predictions predictions) =
     (let b = length (filter (\<lambda>p. mp_signal p = BUY) predictions);
          s = length (filter (\<lambda>p. mp_signal p = SELL) predictions)
      in if b > s then BUY else if s > b then SELL else NEUTRAL)"
  by (simp add: combine_predictions_def Let_def)

lemma combine_predictions_confidence:
  "predictions \<noteq> [] \<Longrightarrow>
   pc_avg_confidence (combine_predictions predictions) =
     (let b = length (filter (\<lambda>p. mp_signal p = BUY) predictions);
          s = length (filter (\<lambda>p. mp_signal p = SELL) predictions);
          avg = sum_list (map mp_confidence predictions) / real (length predictions)
      in py_round
           (if b > s then min 100 (avg + real b / real (length predictions) * 15)
            else if s > b then min 100 (avg + real s / real (length predictions) * 15)
            else max 20 (avg - 20)) 2)"
  by (simp add: combine_predictions_def Let_def)

text \<open>
  Claim C5, as stated, fails on the floor of the NEUTRAL branch: one BUY vote and one
  SELL vote, both at confidence 30, average to 30, and 30 - 20 = 10 floored at 0 would be
  10, but the aggregator returns 20.
\<close>

theorem combine_predictions_floor_counterexample:
  "pc_signal (combine_predictions
      [\<lparr>mp_signal = BUY, mp_confidence = 30\<rparr>, \<lparr>mp_signal = SELL, mp_confidence = 30\<rparr>])
     = NEUTRAL
   \<and> pc_avg_confidence (combine_predictions
      [\<lparr>mp_signal = BUY, mp_confidence = 30\<rparr>, \<lparr>mp_signal = SELL, mp_confidence = 30\<rparr>])
     = 20
   \<and> pc_avg_confidence (combine_predictions
      [\<lparr>mp_signal = BUY, mp_confidence = 30\<rparr>, \<lparr>mp_signal = SELL, mp_confidence = 30\<rparr>])
     \<noteq> py_round (max 0 ((30 + 30) / 2 - 20)) 2"
  by (simp add: combine_predictions_def Let_def py_round_def round_half_even_def)

text \<open>
  Claim C5, amended. An empty vote list yields NEUTRAL with confidence 0. For a
  non-empty list of \<open>n\<close> votes, BUY (resp. SELL) wins when its count is strictly larger
  than the other's, with confidence the average plus (winning count / n) * 15, capped at
  100; when the BUY and SELL counts are equal the signal is NEUTRAL and the confidence is
  the average minus 20, floored at 20. (The reported value is rounded to two decimals.)
\<close>

theorem combine_predictions_vote:
  "pc_signal (combine_predictions []) = NEUTRAL
   \<and> pc_avg_confidence (combine_predictions []) = 0
   \<and> (predictions \<noteq> [] \<longrightarrow>
        (let b = length (filter (\<lambda>p. mp_signal p = BUY) predictions);
             s = length (filter (\<lambda>p. mp_signal p = SELL) predictions);
             n = real (length predictions);
             avg = sum_list (map mp_confidence predictions) / n
         in (b > s \<longrightarrow>
               pc_signal (combine_predictions predictions) = BUY
               \<and> pc_avg_confidence (combine_predictions predictions)
                   = py_round (min 100 (avg + (real b / n) * 15)) 2)
            \<and> (s > b \<longrightarrow>
               pc_signal (combine_predictions predictions) = SELL
               \<and> pc_avg_confidence (combine_predictions predictions)
                   = py_round (min 100 (avg + (real s / n) * 15)) 2)
            \<and> (b = s \<longrightarrow>
               pc_signal (combine_predictions predictions) = NEUTRAL
               \<and> pc_avg_confidence (combine_predictions predictions)
                   = py_round (max 20 (avg - 20)) 2)))"
proof -
  define b where "b = length (filter (\<lambda>p. mp_signal p = BUY) predictions)"
  define s where "s = length (filter (\<lambda>p. mp_signal p = SELL) predictions)"
  define n where "n = real (length predictions)"
  define avg where "avg = sum_list (map mp_confidence predictions) / n"
  have empty: "pc_signal (combine_predictions []) = NEUTRAL
      \<and> pc_avg_confidence (combine_predictions []) = 0"
    by (simp add: combine_predictions_empty)
  have body: "(b > s \<longrightarrow>
               pc_signal (combine_predictions predictions) = BUY
               \<and> pc_avg_confidence (combine_predictions predictions)
                   = py_round (min 100 (avg + (real b / n) * 15)) 2)
            \<and> (s > b \<longrightarrow>
               pc_signal (combine_predictions predictions) = SELL
               \<and> pc_avg_confidence (combine_predictions predictions)
                   = py_round (min 100 (avg + (real s / n) * 15)) 2)
            \<and> (b = s \<longrightarrow>
               pc_signal (combine_predictions predictions) = NEUTRAL
               \<and> pc_avg_confidence (combine_predictions predictions)
                   = py_round (max 20 (avg - 20)) 2)"
    if ne: "predictions \<noteq> []"
  proof -
    have sig: "pc_signal (combine_predictions predictions)
               = (if b > s then BUY else if s > b then SELL else NEUTRAL)"
      using combine_predictions_signal [OF ne] unfolding Let_def b_def s_def .
    have conf: "pc_avg_confidence (combine_predictions predictions)
               = py_round
                   (if b > s then min 100 (avg + real b / n * 15)
                    else if s > b then min 100 (avg + real s / n * 15)
                    else max 20 (avg - 20)) 2"
      using combine_predictions_confidence [OF ne]
      unfolding Let_def b_def s_def n_def avg_def .
    have c1: "pc_signal (combine_predictions predictions) = BUY
               \<and> pc_avg_confidence (combine_predictions predictions)
                   = py_round (min 100 (avg + (real b / n) * 15)) 2" if "b > s"
      unfolding sig conf using that by (simp only: if_True simp_thms)
    have c2: "pc_signal (combine_predictions predictions) = SELL
               \<and> pc_avg_confidence (combine_predictions predictions)
                   = py_round (min 100 (avg + (real s / n) * 15)) 2" if "s > b"
    proof -
      from that have "\<not> b > s" by linarith
      then show ?thesis
        unfolding sig conf using that by (simp only: if_True if_False simp_thms)
    qed
    have c3: "pc_signal (combine_predictions predictions) = NEUTRAL
               \<and> pc_avg_confidence (combine_predictions predictions)
                   = py_round (max 20 (avg - 20)) 2" if "b = s"
    proof -
      from that have "\<not> b > s" "\<not> s > b" by simp_all
      then show ?thesis
        unfolding sig conf by (simp only: if_False simp_thms)
    qed
    show ?thesis using c1 c2 c3 by blast
  qed
  show ?thesis
    unfolding Let_def using empty body
    unfolding b_def s_def n_def avg_def by blast
qed

theorem combine_predictions_vote_witness:
  "[\<lparr>mp_signal = BUY, mp_confidence = 80\<rparr>, \<lparr>mp_signal = BUY, mp_confidence = 60\<rparr>,
    \<lparr>mp_signal = SELL, mp_confidence = 70\<rparr>] \<noteq> []
   \<and> pc_signal (combine_predictions
        [\<lparr>mp_signal = BUY, mp_confidence = 80\<rparr>, \<lparr>mp_signal = BUY, mp_confidence = 60\<rparr>,
         \<lparr>mp_signal = SELL, mp_confidence = 70\<rparr>]) = BUY
   \<and> pc_avg_confidence (combine_predictions
        [\<lparr>mp_signal = BUY, mp_confidence = 80\<rparr>, \<lparr>mp_signal = BUY, mp_confidence = 60\<rparr>,
         \<lparr>mp_signal = SELL, mp_confidence = 70\<rparr>]) = 80
   \<and> pc_signal (combine_predictions
        [\<lparr>mp_signal = SELL, mp_confidence = 95\<rparr>, \<lparr>mp_signal = SELL, mp_confidence = 99\<rparr>])
       = SELL
   \<and> pc_avg_confidence (combine_predictions
        [\<lparr>mp_signal = SELL, mp_confidence = 95\<rparr>, \<lparr>mp_signal = SELL, mp_confidence = 99\<rparr>])
       = 100
   \<and> pc_signal (combine_predictions
        [\<lparr>mp_signal = BUY, mp_confidence = 55\<rparr>, \<lparr>mp_signal = SELL, mp_confidence = 65\<rparr>])
       = NEUTRAL
   \<and> pc_avg_confidence (combine_predictions
        [\<lparr>mp_signal = BUY, mp_confidence = 55\<rparr>, \<lparr>mp_signal = SELL, mp_confidence = 65\<rparr>])
       = 40"
  using
    combine_predictions_vote
      [of "[\<lparr>mp_signal = BUY, mp_confidence = 80\<rparr>, \<lparr>mp_signal = BUY, mp_confidence = 60\<rparr>,
            \<lparr>mp_signal = SELL, mp_confidence = 70\<rparr>]"]
    combine_predictions_vote
      [of "[\<lparr>mp_signal = SELL, mp_confidence = 95\<rparr>, \<lparr>mp_signal = SELL, mp_confidence = 99\<rparr>]"]
    combine_predictions_vote
      [of "[\<lparr>mp_signal = BUY, mp_confidence = 55\<rparr>, \<lparr>mp_signal = SELL, mp_confidence = 65\<rparr>]"]
  by (simp add: Let_def py_round_def round_half_even_def)

section \<open>Properties of the target price calculator\<close>

lemma round_half_even_mono:
  assumes "x \<le> y"
  shows "round_half_even x \<le> round_half_even y"
proof -
  have fl: "\<lfloor>x\<rfloor> \<le> \<lfloor>y\<rfloor>" using assms by (rule floor_mono)
  have ux: "round_half_even x \<le> \<lfloor>x\<rfloor> + 1"
    by (simp add: round_half_even_def Let_def)
  have ly: "\<lfloor>y\<rfloor> \<le> round_half_even y"
    by (simp add: round_half_even_def Let_def)
  show ?thesis
  proof (cases "\<lfloor>x\<rfloor> < \<lfloor>y\<rfloor>")
    case True
    then show ?thesis using ux ly by linarith
  next
    case False
    then have eq: "\<lfloor>x\<rfloor> = \<lfloor>y\<rfloor>" using fl by linarith
    have d: "x - of_int \<lfloor>y\<rfloor> \<le> y - of_int \<lfloor>y\<rfloor>" using assms by simp
    show ?thesis
      unfolding round_half_even_def Let_def eq using d by (auto split: if_splits)
  qed
qed

lemma py_round_mono: "x \<le> y \<Longrightarrow> py_round x n \<le> py_round y n"
proof -
  assume "x \<le> y"
  then have "x * 10 ^ n \<le> y * 10 ^ n" by (simp add: mult_right_mono)
  then have "round_half_even (x * 10 ^ n) \<le> round_half_even (y * 10 ^ n)"
    by (rule round_half_even_mono)
  then show ?thesis
    by (simp add: py_round_def divide_right_mono)
qed

lemma calculate_target_gate_confidence:
  "close \<noteq> [] \<Longrightarrow> confidence < min_confidence \<Longrightarrow>
   calculate_target close current_atr sig confidence min_confidence
     = Some \<lparr> target_price = None, target_type = None, current_price = last close,
              reason = Some (Confidence_below_threshold min_confidence),
              atr = None, confidence_factor = None, price_movement = None,
              pct_move = None \<rparr>"
  by (simp add: calculate_target_def)

lemma calculate_target_gate_neutral:
  "close \<noteq> [] \<Longrightarrow> \<not> confidence < min_confidence \<Longrightarrow>
   calculate_target close current_atr NEUTRAL confidence min_confidence
     = Some \<lparr> target_price = None, target_type = None, current_price = last close,
              reason = Some Signal_is_NEUTRAL,
              atr = None, confidence_factor = None, price_movement = None,
              pct_move = None \<rparr>"
  by (simp add: calculate_target_def)

lemma calculate_target_buy:
  "close \<noteq> [] \<Longrightarrow> \<not> confidence < min_confidence \<Longrightarrow>
   \<exists>r. calculate_target close (Inr a) BUY confidence min_confidence = Some r
     \<and> target_price r
         = Some (py_round (last close + a * (5 / 10 + (confidence / 100) * (15 / 10))) 2)
     \<and> target_type r = Some HIGH
     \<and> current_price r = py_round (last close) 2"
  by (simp add: calculate_target_def Let_def)

lemma calculate_target_sell:
  "close \<noteq> [] \<Longrightarrow> \<not> confidence < min_confidence \<Longrightarrow>
   \<exists>r. calculate_target close (Inr a) SELL confidence min_confidence = Some r
     \<and> target_price r
         = Some (py_round (last close - a * (5 / 10 + (confidence / 100) * (15 / 10))) 2)
     \<and> target_type r = Some LOW
     \<and> current_price r = py_round (last close) 2"
  by (simp add: calculate_target_def Let_def)


text \<open>
  Claim C6, as stated, fails on the strict inequality. With a flat window the average
  true range is 0, the movement is 0 and the BUY target equals the current price. With a
  positive range the movement can still be lost to the rounding of the result: at price
  100.004, range 0.0005 and confidence 60 the target 100.0047 is reported as 100.0,
  below the current price.
\<close>

theorem calculate_target_not_above_counterexample:
  "calculate_target [100] (Inr 0) BUY 80 60
     = Some \<lparr> target_price = Some 100, target_type = Some HIGH, current_price = 100,
              reason = None, atr = Some 0, confidence_factor = Some (17 / 10),
              price_movement = Some 0, pct_move = Some (Fin 0) \<rparr>
   \<and> \<not> (100 :: real) > last [100]
   \<and> calculate_target [100004 / 1000] (Inr (5 / 10000)) BUY 60 60
     = Some \<lparr> target_price = Some 100, target_type = Some HIGH, current_price = 100,
              reason = None, atr = Some 0, confidence_factor = Some (14 / 10),
              price_movement = Some 0, pct_move = Some (Fin 0) \<rparr>
   \<and> \<not> (100 :: real) > last [100004 / 1000]"
  by (simp add: calculate_target_def Let_def py_round_def round_half_even_def)

text \<open>
  Claim C6, amended. For every non-empty candle window: if the confidence is below the
  threshold or the signal is NEUTRAL, the result has a null price and a null type with a
  reason, and none of the computed fields. Otherwise, when the average true range is
  available, with confidenceFactor = 0.5 + (confidence/100) * 1.5 and movement = atr *
  confidenceFactor, a BUY yields the target currentPrice + movement with type HIGH and a
  SELL the target currentPrice - movement with type LOW, both reported rounded to two
  decimals. When atr > 0 and the confidence is not negative, the target before rounding
  is strictly above (BUY) or below (SELL) the current price, and the reported target is
  not below (BUY) or not above (SELL) the reported current price.
\<close>

theorem calculate_target_gate_and_direction:
  assumes "close \<noteq> []"
  shows
    "(confidence < min_confidence \<or> sig = NEUTRAL \<longrightarrow>
        (\<exists>r. calculate_target close current_atr sig confidence min_confidence = Some r
           \<and> target_price r = None \<and> target_type r = None \<and> reason r \<noteq> None
           \<and> atr r = None \<and> confidence_factor r = None \<and> price_movement r = None))
     \<and> (\<not> confidence < min_confidence \<and> current_atr = Inr a \<longrightarrow>
        (let factor = 5 / 10 + (confidence / 100) * (15 / 10);
             movement = a * factor;
             cur = last close
         in (sig = BUY \<longrightarrow>
               (\<exists>r. calculate_target close current_atr sig confidence min_confidence = Some r
                  \<and> target_price r = Some (py_round (cur + movement) 2)
                  \<and> target_type r = Some HIGH
                  \<and> (0 < a \<and> 0 \<le> confidence \<longrightarrow>
                       cur < cur + movement
                       \<and> current_price r \<le> py_round (cur + movement) 2)))
            \<and> (sig = SELL \<longrightarrow>
               (\<exists>r. calculate_target close current_atr sig confidence min_confidence = Some r
                  \<and> target_price r = Some (py_round (cur - movement) 2)
                  \<and> target_type r = Some LOW
                  \<and> (0 < a \<and> 0 \<le> confidence \<longrightarrow>
                       cur - movement < cur
                       \<and> py_round (cur - movement) 2 \<le> current_price r)))))"
proof -
  define factor where "factor = 5 / 10 + (confidence / 100) * (15 / 10)"
  define movement where "movement = a * factor"
  define cur where "cur = last close"
  have gate: "\<exists>r. calculate_target close current_atr sig confidence min_confidence = Some r
           \<and> target_price r = None \<and> target_type r = None \<and> reason r \<noteq> None
           \<and> atr r = None \<and> confidence_factor r = None \<and> price_movement r = None"
    if "confidence < min_confidence \<or> sig = NEUTRAL"
  proof (cases "confidence < min_confidence")
    case True
    show ?thesis
      by (simp add: calculate_target_gate_confidence [OF assms True])
  next
    case False
    with that have "sig = NEUTRAL" by simp
    then show ?thesis
      by (simp add: calculate_target_gate_neutral [OF assms False])
  qed
  have pos: "0 < movement" if "0 < a" "0 \<le> confidence"
  proof -
    have "0 < factor" using that(2) by (simp add: factor_def add_pos_nonneg)
    then show ?thesis using that(1) by (simp add: movement_def)
  qed
  have buy: "\<exists>r. calculate_target close current_atr sig confidence min_confidence = Some r
                  \<and> target_price r = Some (py_round (cur + movement) 2)
                  \<and> target_type r = Some HIGH
                  \<and> (0 < a \<and> 0 \<le> confidence \<longrightarrow>
                       cur < cur + movement
                       \<and> current_price r \<le> py_round (cur + movement) 2)"
    if ng: "\<not> confidence < min_confidence" and at: "current_atr = Inr a" and sg: "sig = BUY"
  proof -
    obtain r where r: "calculate_target close (Inr a) BUY confidence min_confidence = Some r"
        "target_price r = Some (py_round (cur + movement) 2)"
        "target_type r = Some HIGH" "current_price r = py_round cur 2"
      using calculate_target_buy [OF assms ng, of a]
      unfolding cur_def movement_def factor_def by blast
    have "cur < cur + movement \<and> current_price r \<le> py_round (cur + movement) 2"
      if "0 < a" "0 \<le> confidence"
    proof -
      have m: "0 < movement" using that by (rule pos)
      then have "py_round cur 2 \<le> py_round (cur + movement) 2"
        by (intro py_round_mono) simp
      then show ?thesis using m r(4) by simp
    qed
    then show ?thesis using r at sg by blast
  qed
  have sell: "\<exists>r. calculate_target close current_atr sig confidence min_confidence = Some r
                  \<and> target_price r = Some (py_round (cur - movement) 2)
                  \<and> target_type r = Some LOW
                  \<and> (0 < a \<and> 0 \<le> confidence \<longrightarrow>
                       cur - movement < cur
                       \<and> py_round (cur - movement) 2 \<le> current_price r)"
    if ng: "\<not> confidence < min_confidence" and at: "current_atr = Inr a" and sg: "sig = SELL"
  proof -
    obtain r where r: "calculate_target close (Inr a) SELL confidence min_confidence = Some r"
        "target_price r = Some (py_round (cur - movement) 2)"
        "target_type r = Some LOW" "current_price r = py_round cur 2"
      using calculate_target_sell [OF assms ng, of a]
      unfolding cur_def movement_def factor_def by blast
    have "cur - movement < cur \<and> py_round (cur - movement) 2 \<le> current_price r"
      if "0 < a" "0 \<le> confidence"
    proof -
      have m: "0 < movement" using that by (rule pos)
      then have "py_round (cur - movement) 2 \<le> py_round cur 2"
        by (intro py_round_mono) simp
      then show ?thesis using m r(4) by simp
    qed
    then show ?thesis using r at sg by blast
  qed
  show ?thesis
    unfolding Let_def using gate buy sell
    unfolding cur_def movement_def factor_def by blast
qed

theorem calculate_target_gate_and_direction_witness:
  "[98, 100 :: real] \<noteq> []
   \<and> (\<exists>r. calculate_target [98, 100] (Inr 2) BUY 50 60 = Some r
         \<and> target_price r = None \<and> target_type r = None \<and> reason r \<noteq> None)
   \<and> (\<exists>r. calculate_target [98, 100] (Inr 2) NEUTRAL 90 60 = Some r
         \<and> target_price r = None \<and> target_type r = None \<and> reason r \<noteq> None)
   \<and> (\<exists>r. calculate_target [98, 100] (Inr 2) BUY 80 60 = Some r
         \<and> target_price r = Some (1034 / 10) \<and> target_type r = Some HIGH
         \<and> current_price r \<le> 1034 / 10)
   \<and> (\<exists>r. calculate_target [98, 100] (Inr 2) SELL 80 60 = Some r
         \<and> target_price r = Some (966 / 10) \<and> target_type r = Some LOW
         \<and> 966 / 10 \<le> current_price r)"
  using
    calculate_target_gate_and_direction [of "[98, 100]" 50 60 BUY "Inr 2" 2]
    calculate_target_gate_and_direction [of "[98, 100]" 90 60 NEUTRAL "Inr 2" 2]
    calculate_target_gate_and_direction [of "[98, 100]" 80 60 BUY "Inr 2" 2]
    calculate_target_gate_and_direction [of "[98, 100]" 80 60 SELL "Inr 2" 2]
  by (auto simp add: Let_def py_round_def round_half_even_def)

section \<open>Properties of the sentiment aggregator\<close>










section \<open>The momentum strategy on an unavailable oscillator\<close>

lemma RSIStrategy_calculate_raises:
  "RSIStrategy_calculate self (Inl e)
     = \<lparr> rsi_signal = NEUTRAL, rsi_confidence = Fin 0, rsi_value = Fin 0,
         rsi_error = Some e \<rparr>"
  by (simp add: RSIStrategy_calculate_def)

lemma RSIStrategy_calculate_empty:
  "RSIStrategy_calculate self (Inr [])
     = \<lparr> rsi_signal = NEUTRAL, rsi_confidence = Fin 0, rsi_value = Fin 0,
         rsi_error = Some IndexError \<rparr>"
  by (simp add: RSIStrategy_calculate_def)

lemma RSIStrategy_calculate_nan:
  assumes "series \<noteq> []" and "last series = NaN"
  shows "RSIStrategy_calculate self (Inr series)
     = \<lparr> rsi_signal = NEUTRAL, rsi_confidence = Fin 20, rsi_value = NaN,
         rsi_error = None \<rparr>"
  using assms
  by (simp add: RSIStrategy_calculate_def Let_def pf_sub_def py_max_def
      py_round_def round_half_even_def)

lemma run_strategies_skips_raising:
  "strategy df = Inl e \<Longrightarrow>
   run_strategies enabled (before @ (name, strategy) # after) df
     = run_strategies enabled (before @ after) df"
  by (induction before) (auto split: option.splits sum.splits)

lemma calculate_all_skips_raising:
  "strategy df = Inl e \<Longrightarrow>
   calculate_all enabled (before @ (name, strategy) # after) df
     = calculate_all enabled (before @ after) df"
  by (simp add: calculate_all_def run_strategies_skips_raising)

text \<open>
  Claim C7 does not hold of the code. On a window of five candles, shorter than the
  period 14 of the oscillator, the oscillator is unavailable on every row and the series
  ends in NaN. Both threshold comparisons are false on NaN, so the strategy takes its
  NEUTRAL branch, where \<^verbatim>\<open>max(20, nan)\<close> is 20: the result is NEUTRAL with confidence
  20 and the value NaN, and the handler that returns confidence 0 is not entered.
\<close>

theorem rsi_short_window_confidence:
  "RSIStrategy_calculate (RSIStrategy_init None None None)
       (Inr (unavailable_series [100, 101, 102, 103, 104]))
     = \<lparr> rsi_signal = NEUTRAL, rsi_confidence = Fin 20, rsi_value = NaN,
         rsi_error = None \<rparr>"
  by (simp add: RSIStrategy_calculate_def RSIStrategy_init_def unavailable_series_def
      settings_def py_or_def Let_def pf_sub_def py_max_def py_round_def round_half_even_def)

section \<open>Serialization of non-finite numbers\<close>

lemma clean_python_float_special:
  "clean_for_serialization (PyFloat NaN) = Inr PyNone"
  "clean_for_serialization (PyFloat PosInf) = Inr PyNone"
  "clean_for_serialization (PyFloat NegInf) = Inr PyNone"
  "clean_for_serialization (PyFloat (Fin r)) = Inr (PyFloat (Fin r))"
  by simp_all

lemma clean_numpy_float: "clean_for_serialization (NpFloat64 x) = Inr (PyFloat x)"
  by simp

text \<open>
  Claim C9 does not hold of the code. A NaN held as a Python float is replaced by the
  null value, but a NaN held as a numpy float leaves the function through the
  \<^verbatim>\<open>item()\<close> branch as a Python float NaN, before the check for non-finite values is
  reached; the same happens to a numpy infinity.
\<close>

theorem clean_keeps_numpy_nan:
  "clean_for_serialization
     (PyDict [(''confidence'', PyFloat NaN),
              (''current_price'', NpFloat64 NaN),
              (''details'', PyList [PyDict [(''value'', NpFloat64 PosInf)]])])
   = Inr (PyDict [(''confidence'', PyNone),
                  (''current_price'', PyFloat NaN),
                  (''details'', PyList [PyDict [(''value'', PyFloat PosInf)]])])"
  by simp

end
